theory Spec2Isabelle
  imports Main
begin

section \<open>Python values\<close>

text \<open>
  The functions of \<^verbatim>\<open>sessions.py\<close>, \<^verbatim>\<open>auth.py\<close> and \<^verbatim>\<open>adapters.py\<close> are dynamically
  typed: they test their arguments with \<^verbatim>\<open>is None\<close>, \<^verbatim>\<open>isinstance\<close> and truthiness.
  A value is therefore a tagged union.  A dictionary keeps its insertion order and has
  string keys (header names, hook events, pool-key fields); a callable is known by its
  identity only.
\<close>

datatype pyval =
    PNone
  | PBool bool
  | PInt int
  | PStr string
  | PList "pyval list"
  | PTuple "pyval list"
  | PDict "(string \<times> pyval) list"
  | PCallable nat

type_synonym pydict = "(string \<times> pyval) list"


text \<open>\<^verbatim>\<open>d[k] = v\<close>: an existing key keeps its place, a new key goes to the end.\<close>

primrec setitem :: "string \<Rightarrow> pyval \<Rightarrow> pydict \<Rightarrow> pydict" where
  "setitem k v [] = [(k, v)]"
| "setitem k v (e # d) = (if fst e = k then (k, v) # d else e # setitem k v d)"

text \<open>\<^verbatim>\<open>d.update(pairs)\<close>: the pairs are stored from left to right.\<close>

primrec dict_update :: "pydict \<Rightarrow> (string \<times> pyval) list \<Rightarrow> pydict" where
  "dict_update d [] = d"
| "dict_update d (e # es) = dict_update (setitem (fst e) (snd e) d) es"

text \<open>\<^verbatim>\<open>OrderedDict(pairs)\<close>, the default \<^verbatim>\<open>dict_class\<close> of the two merge functions.\<close>

definition OrderedDict :: "(string \<times> pyval) list \<Rightarrow> pydict" where
  "OrderedDict pairs = dict_update [] pairs"


text \<open>A dictionary value holds every key once.\<close>

definition wf_dict :: "pydict \<Rightarrow> bool" where
  "wf_dict d = distinct (map fst d)"

text \<open>
  What the transport collaborator (urllib3, the socket layer) can raise, and the exceptions
  that leave the functions modelled here.  \<^verbatim>\<open>TransportError\<close> is a transport fault that
  propagates as it is.
\<close>

datatype transport_fault =
    ProtocolError string
  | SocketError string
  | OtherTransportFault string

datatype error =
    AttributeError string
  | UnboundLocalError string
  | ValueError string
  | ConnectionError transport_fault
  | TransportError transport_fault

section \<open>ConfigMerger: \<^verbatim>\<open>merge_setting\<close> and \<^verbatim>\<open>merge_hooks\<close> (sessions.py)\<close>

text \<open>
  Modelled from the spec: \<^verbatim>\<open>to_key_val_list\<close> is imported from \<^verbatim>\<open>utils.py\<close>, which is
  not among the sources.  \<^verbatim>\<open>merge_setting\<close> calls it on mappings only, where the merge
  the spec describes works on the mapping's entries: it lists them, in order.
\<close>

definition to_key_val_list :: "pydict \<Rightarrow> (string \<times> pyval) list" where
  "to_key_val_list d = d"

text \<open>
  \<^verbatim>\<open>
  def merge_setting(request_setting, session_setting, dict_class=OrderedDict):
      if session_setting is None:
          return request_setting
      if request_setting is None:
          return session_setting
      if isinstance(session_setting, Mapping) and isinstance(request_setting, Mapping):
          merged_setting = dict_class(to_key_val_list(session_setting))
          merged_setting.update(to_key_val_list(request_setting))
          return merged_setting
      return request_setting
  \<close>
\<close>

fun merge_setting :: "pyval \<Rightarrow> pyval \<Rightarrow> pyval" where
  "merge_setting request_setting PNone = request_setting"
| "merge_setting PNone session_setting = session_setting"
| "merge_setting (PDict request_setting) (PDict session_setting) =
     PDict (dict_update (OrderedDict (to_key_val_list session_setting))
                        (to_key_val_list request_setting))"
| "merge_setting request_setting session_setting = request_setting"


text \<open>\<^verbatim>\<open>isinstance(x, Mapping)\<close>\<close>

fun is_mapping :: "pyval \<Rightarrow> bool" where
  "is_mapping (PDict d) = True"
| "is_mapping x = False"


section \<open>Requests, responses and parsed URLs\<close>

text \<open>
  \<^verbatim>\<open>urlparse\<close> and \<^verbatim>\<open>urljoin\<close> belong to the standard library; the functions below
  take them as parameters.  Of a parse result they read \<^verbatim>\<open>scheme\<close>, \<^verbatim>\<open>hostname\<close>
  (\<^verbatim>\<open>None\<close> when the URL has no host), \<^verbatim>\<open>port\<close> (\<^verbatim>\<open>None\<close> when the URL names no port;
  reading it raises \<^verbatim>\<open>ValueError\<close> when the port is not a number in range), \<^verbatim>\<open>path\<close>
  and \<^verbatim>\<open>query\<close>.
\<close>

record parsed_url =
  scheme :: string
  hostname :: "string option"
  port :: "error + nat option"
  path :: string
  query :: string

text \<open>
  The body of a prepared request: none, bytes, or a stream with a read position.
  \<^verbatim>\<open>body.seek(p)\<close> exists on a stream only.
\<close>

datatype body = NoBody | BytesBody string | StreamBody string nat

text \<open>
  A prepared request.  Its headers are a \<^verbatim>\<open>CaseInsensitiveDict\<close>, modelled as a map
  from the lower-cased header name; a stored value is a string, or \<^verbatim>\<open>None\<close> where
  the code stores the \<^verbatim>\<open>None\<close> that \<^verbatim>\<open>build_digest_header\<close> returned.
\<close>

record prepared_request =
  req_method :: string
  req_url :: string
  req_headers :: "string \<rightharpoonup> string option"
  req_body :: body

text \<open>
  A response: \<^verbatim>\<open>status_code\<close>, \<^verbatim>\<open>headers\<close> (by lower-cased name), \<^verbatim>\<open>url\<close>,
  \<^verbatim>\<open>history\<close> and \<^verbatim>\<open>request\<close>.
\<close>

datatype response =
  Response (status_code: int) (headers: "string \<rightharpoonup> string") (url: string)
           (history: "response list") (request: prepared_request)

section \<open>RedirectResolver: \<^verbatim>\<open>SessionRedirectMixin\<close> (sessions.py)\<close>

text \<open>
  Modelled from the spec: \<^verbatim>\<open>REDIRECT_STATI\<close> and the property \<^verbatim>\<open>Response.is_redirect\<close>
  live in \<^verbatim>\<open>models.py\<close>, which is not among the sources.  The spec lists the
  redirect-eligible status codes as 301, 302, 303, 307, 308, and calls a response a
  redirect only if its status is one of them and it carries a \<^verbatim>\<open>Location\<close> header.
\<close>

definition REDIRECT_STATI :: "int list" where
  "REDIRECT_STATI = [301, 302, 303, 307, 308]"

definition is_redirect :: "response \<Rightarrow> bool" where
  "is_redirect resp =
     (headers resp ''location'' \<noteq> None \<and> status_code resp \<in> set REDIRECT_STATI)"

text \<open>
  \<^verbatim>\<open>
  def get_redirect_target(self, resp):
      if resp.is_redirect:
          location = resp.headers.get('location')
          if location:
              return urljoin(resp.url, location)
      return None
  \<close>
\<close>

definition get_redirect_target :: "(string \<Rightarrow> string \<Rightarrow> string) \<Rightarrow> response \<Rightarrow> string option" where
  "get_redirect_target urljoin resp =
     (if is_redirect resp then
        (case headers resp ''location'' of
           None \<Rightarrow> None
         | Some location \<Rightarrow> if location \<noteq> [] then Some (urljoin (url resp) location) else None)
      else None)"

text \<open>
  \<^verbatim>\<open>
  def should_strip_auth(self, old_url, new_url):
      old_parsed = urlparse(old_url)
      new_parsed = urlparse(new_url)
      if old_parsed.hostname != new_parsed.hostname:
          return True
      # Special case: allow http -> https redirect with auth
      if old_parsed.scheme == 'http' and new_parsed.scheme == 'https':
          return False
      return old_parsed.port != new_parsed.port
  \<close>
\<close>

definition should_strip_auth :: "(string \<Rightarrow> parsed_url) \<Rightarrow> string \<Rightarrow> string \<Rightarrow> error + bool" where
  "should_strip_auth urlparse old_url new_url =
     (let old_parsed = urlparse old_url;
          new_parsed = urlparse new_url
      in if hostname old_parsed \<noteq> hostname new_parsed then Inr True
         else if scheme old_parsed = ''http'' \<and> scheme new_parsed = ''https'' then Inr False
         else (case port old_parsed of
                 Inl e \<Rightarrow> Inl e
               | Inr old_port \<Rightarrow>
                   (case port new_parsed of
                      Inl e \<Rightarrow> Inl e
                    | Inr new_port \<Rightarrow> Inr (old_port \<noteq> new_port))))"

text \<open>
  \<^verbatim>\<open>
  def rebuild_method(self, prepared_request, response):
      """When being redirected we may want to change the method of the request
      based on certain specs or browser behavior.
      """
      pass
  \<close>
  The body is \<^verbatim>\<open>pass\<close>: the call returns \<^verbatim>\<open>None\<close> and changes nothing.  The model
  gives the prepared request as it is after the call.
\<close>

definition rebuild_method :: "prepared_request \<Rightarrow> response \<Rightarrow> prepared_request" where
  "rebuild_method prepared_request resp = prepared_request"

section \<open>ConnectionPoolAdapter (adapters.py)\<close>




text \<open>
  What the pooled connection's \<^verbatim>\<open>urlopen\<close> gives back: status, headers and reason of
  the raw response.  \<^verbatim>\<open>self.get_connection(...)\<close> followed by \<^verbatim>\<open>conn.urlopen(...)\<close> is
  the transport, a parameter that returns a raw response or raises a fault.
\<close>

record raw_response =
  status :: int
  raw_headers :: "string \<rightharpoonup> string"
  reason :: string

type_synonym transport = "prepared_request \<Rightarrow> transport_fault + raw_response"

text \<open>
  \<^verbatim>\<open>
  class BaseAdapter:
      def send(self, request, stream=False, timeout=None, verify=True, cert=None, proxies=None):
          try:
              conn = self.get_connection(request.url, proxies)
              resp = conn.urlopen(method=request.method, url=request.url, ...)
              response = Response()
              response.status_code = resp.status
              response.headers = CaseInsensitiveDict(resp.headers)
              ...
              response.url = request.url
              response.request = request
              response.connection = self
              return response
          except (ProtocolError, socket.error) as err:
              raise ConnectionError(err, request=request)
  \<close>
  A call returns a response, returns \<^verbatim>\<open>None\<close>, or raises: the result is
  \<open>error + response option\<close>.  \<^verbatim>\<open>BaseAdapter\<close> defines neither \<^verbatim>\<open>get_connection\<close> nor
  \<^verbatim>\<open>max_retries\<close>; the body runs on a subclass that does and keeps this \<^verbatim>\<open>send\<close>.
\<close>

definition BaseAdapter_send :: "transport \<Rightarrow> prepared_request \<Rightarrow> error + response option" where
  "BaseAdapter_send urlopen req =
     (case urlopen req of
        Inl (ProtocolError m) \<Rightarrow> Inl (ConnectionError (ProtocolError m))
      | Inl (SocketError m) \<Rightarrow> Inl (ConnectionError (SocketError m))
      | Inl (OtherTransportFault m) \<Rightarrow> Inl (TransportError (OtherTransportFault m))
      | Inr resp \<Rightarrow> Inr (Some (Response (status resp) (raw_headers resp) (req_url req) [] req)))"

text \<open>
  \<^verbatim>\<open>
  class HTTPAdapter(BaseAdapter):
      def send(self, request, stream=False, timeout=None, verify=True, cert=None, proxies=None):
          """Sends PreparedRequest object. Returns Response object.
          ...
          :rtype: requests.Response
          """
          pass
  \<close>
  The override's body is \<^verbatim>\<open>pass\<close>: it never reaches the transport and returns
  \<^verbatim>\<open>None\<close>.
\<close>

definition HTTPAdapter_send :: "transport \<Rightarrow> prepared_request \<Rightarrow> error + response option" where
  "HTTPAdapter_send urlopen req = Inr None"

section \<open>Strings\<close>

text \<open>
  A \<^verbatim>\<open>str\<close> is a list of 8-bit characters (header text is Latin-1); \<^verbatim>\<open>bytes\<close> are
  lists of characters too.  \<^verbatim>\<open>str.upper\<close> maps a letter to its capital and the sharp
  s (223) to \<^verbatim>\<open>SS\<close>; the capitals of the micro sign (181) and of y with diaeresis (255)
  lie outside Latin-1, so the model leaves both as they are: the code compares the
  result with ASCII literals only, which neither equals.  \<^verbatim>\<open>str.lower\<close> maps a capital
  to its small letter.
\<close>

definition upper_char :: "char \<Rightarrow> string" where
  "upper_char c =
     (let n = (of_char c :: nat)
      in if 97 \<le> n \<and> n \<le> 122 then [char_of (n - 32)]
         else if n = 223 then ''SS''
         else if 224 \<le> n \<and> n \<le> 254 \<and> n \<noteq> 247 then [char_of (n - 32)]
         else [c])"

definition upper :: "string \<Rightarrow> string" where
  "upper s = concat (map upper_char s)"





text \<open>\<^verbatim>\<open>s.split(sep)\<close> for a one-character separator.\<close>

fun str_split :: "char \<Rightarrow> string \<Rightarrow> string list" where
  "str_split sep [] = [[]]"
| "str_split sep (c # cs) =
     (if c = sep then [] # str_split sep cs
      else (case str_split sep cs of
              [] \<Rightarrow> [[c]]
            | w # ws \<Rightarrow> (c # w) # ws))"

text \<open>\<^verbatim>\<open>str(n)\<close> and \<^verbatim>\<open>'%x' % n\<close> for \<open>n \<ge> 0\<close>, and \<^verbatim>\<open>'%08x' % n\<close>.\<close>

definition digit_char :: "nat \<Rightarrow> char" where
  "digit_char d = ''0123456789abcdef'' ! d"

function str_nat :: "nat \<Rightarrow> string" where
  "str_nat n = (if n < 10 then [digit_char n] else str_nat (n div 10) @ [digit_char (n mod 10)])"
  by pat_completeness auto
termination
  by (relation "measure id") auto

function hex :: "nat \<Rightarrow> string" where
  "hex n = (if n < 16 then [digit_char n] else hex (n div 16) @ [digit_char (n mod 16)])"
  by pat_completeness auto
termination
  by (relation "measure id") auto

declare str_nat.simps [simp del] hex.simps [simp del]

definition fmt_08x :: "nat \<Rightarrow> string" where
  "fmt_08x n = replicate (8 - length (hex n)) (CHR ''0'') @ hex n"

text \<open>\<^verbatim>\<open>s.encode('utf-8')\<close> for code points below 256.\<close>

definition utf8_char :: "char \<Rightarrow> string" where
  "utf8_char c =
     (let n = (of_char c :: nat)
      in if n < 128 then [c] else [char_of (192 + n div 64), char_of (128 + n mod 64)])"

definition encode_utf8 :: "string \<Rightarrow> string" where
  "encode_utf8 s = concat (map utf8_char s)"

text \<open>\<^verbatim>\<open>'%s' % x\<close> where \<^verbatim>\<open>x\<close> is a string or \<^verbatim>\<open>None\<close>.\<close>

definition pct_s :: "string option \<Rightarrow> string" where
  "pct_s x = (case x of None \<Rightarrow> ''None'' | Some s \<Rightarrow> s)"

definition dq :: string where
  "dq = [CHR 0x22]"

definition quoted :: "string \<Rightarrow> string" where
  "quoted s = dq @ s @ dq"


section \<open>DigestAuthEngine: \<^verbatim>\<open>HTTPDigestAuth\<close> (auth.py)\<close>

text \<open>
  The state one \<^verbatim>\<open>HTTPDigestAuth\<close> object keeps in \<^verbatim>\<open>self._thread_local\<close>, with the
  credentials.  \<^verbatim>\<open>chal\<close> is the parsed challenge; the code reads it with
  \<^verbatim>\<open>chal.get(key)\<close> only, so a key stored with \<^verbatim>\<open>None\<close> reads like a missing key and
  the model is a partial map to strings.
\<close>

record digest_auth =
  username :: string
  password :: string
  last_nonce :: string
  nonce_count :: nat
  chal :: "string \<rightharpoonup> string"
  pos :: "nat option"
  num_401_calls :: nat

text \<open>
  \<^verbatim>\<open>
  def __init__(self, username, password):
      self.username = username
      self.password = password
      self._thread_local = threading.local()
      self._thread_local.last_nonce = ''
      self._thread_local.nonce_count = 0
      self._thread_local.chal = {}
      self._thread_local.pos = None
      self._thread_local.num_401_calls = 1
  \<close>
\<close>

definition HTTPDigestAuth :: "string \<Rightarrow> string \<Rightarrow> digest_auth" where
  "HTTPDigestAuth user pass =
     \<lparr>username = user, password = pass, last_nonce = [], nonce_count = 0,
      chal = Map.empty, pos = None, num_401_calls = 1\<rparr>"

text \<open>
  What the engine takes from outside this repository's sources: the two
  \<^verbatim>\<open>hashlib\<close> digests (bytes to hex digest), the clock and random bytes that go into the
  client nonce, \<^verbatim>\<open>urlparse\<close>, \<^verbatim>\<open>utils.parse_dict_header\<close>, the cookie steps of
  \<^verbatim>\<open>handle_401\<close> (\<^verbatim>\<open>extract_cookies_to_jar\<close>, \<^verbatim>\<open>prepare_cookies\<close>) and the
  \<^verbatim>\<open>send\<close> of the adapter held in \<^verbatim>\<open>r.connection\<close>.
\<close>

record auth_env =
  env_md5 :: "string \<Rightarrow> string"
  env_sha1 :: "string \<Rightarrow> string"
  env_ctime :: string
  env_urandom :: string
  env_urlparse :: "string \<Rightarrow> parsed_url"
  env_parse_dict_header :: "string \<Rightarrow> (string \<rightharpoonup> string)"
  env_cookies :: "response \<Rightarrow> prepared_request \<Rightarrow> prepared_request"
  env_send :: "prepared_request \<Rightarrow> error + response option"

text \<open>
  \<^verbatim>\<open>
  if _algorithm == 'MD5' or _algorithm == 'MD5-SESS':
      def md5_utf8(x):
          if isinstance(x, str):
              x = x.encode('utf-8')
          return hashlib.md5(x).hexdigest()
      hash_utf8 = md5_utf8
  elif _algorithm == 'SHA':
      def sha_utf8(x): ...
      hash_utf8 = sha_utf8
  \<close>
  It follows
  \<^verbatim>\<open>
  if algorithm is None:
      _algorithm = 'MD5'
  else:
      _algorithm = algorithm.upper()
  \<close>
  (\<open>algorithm_u_of\<close>).  There is no \<^verbatim>\<open>else\<close> and no earlier assignment: after the statement the local
  \<^verbatim>\<open>hash_utf8\<close> is bound to a function, or unbound (\<open>None\<close> below).
\<close>

definition md5_utf8 :: "auth_env \<Rightarrow> string \<Rightarrow> string" where
  "md5_utf8 env x = env_md5 env (encode_utf8 x)"

definition sha_utf8 :: "auth_env \<Rightarrow> string \<Rightarrow> string" where
  "sha_utf8 env x = env_sha1 env (encode_utf8 x)"

definition algorithm_u_of :: "string option \<Rightarrow> string" where
  "algorithm_u_of algorithm = (case algorithm of None \<Rightarrow> ''MD5'' | Some a \<Rightarrow> upper a)"

definition select_hash :: "auth_env \<Rightarrow> string \<Rightarrow> (string \<Rightarrow> string) option" where
  "select_hash env algorithm_u =
     (if algorithm_u = ''MD5'' \<or> algorithm_u = ''MD5-SESS'' then Some (md5_utf8 env)
      else if algorithm_u = ''SHA'' then Some (sha_utf8 env)
      else None)"

text \<open>\<^verbatim>\<open>KD = lambda s, d: hash_utf8("%s:%s" % (s, d))\<close>\<close>

definition KD :: "(string \<Rightarrow> string) \<Rightarrow> string \<Rightarrow> string \<Rightarrow> string" where
  "KD hash_utf8 s d = hash_utf8 (s @ '':'' @ d)"

text \<open>
  \<^verbatim>\<open>
  if qop is None:
      respdig = KD(HA1, "%s:%s" % (nonce, HA2))
  elif qop == 'auth' or 'auth' in qop.split(','):
      noncebit = "%s:%s:%s:%s:%s" % (nonce, ncvalue, cnonce, 'auth', HA2)
      respdig = KD(HA1, noncebit)
  else:
      return None
  \<close>
\<close>

definition qop_auth :: "string \<Rightarrow> bool" where
  "qop_auth qop = (qop = ''auth'' \<or> ''auth'' \<in> set (str_split (CHR '','') qop))"

definition response_digest ::
  "(string \<Rightarrow> string) \<Rightarrow> string option \<Rightarrow> string \<Rightarrow> string \<Rightarrow> string \<Rightarrow> string \<Rightarrow> string \<Rightarrow>
   string option" where
  "response_digest hash_utf8 qop HA1 HA2 nonce ncvalue cnonce =
     (case qop of
        None \<Rightarrow> Some (KD hash_utf8 HA1 (nonce @ '':'' @ HA2))
      | Some q \<Rightarrow>
          if qop_auth q
          then Some (KD hash_utf8 HA1
                 (nonce @ '':'' @ ncvalue @ '':'' @ cnonce @ '':'' @ ''auth'' @ '':'' @ HA2))
          else None)"

text \<open>
  \<^verbatim>\<open>
  base = 'username="%s", realm="%s", nonce="%s", uri="%s", ' \
         'response="%s"' % (self.username, realm, nonce, path, respdig)
  if opaque:
      base += ', opaque="%s"' % opaque
  if algorithm:
      base += ', algorithm="%s"' % algorithm
  if entdig:
      base += ', digest="%s"' % entdig
  if qop:
      base += ', qop="auth", nc=%s, cnonce="%s"' % (ncvalue, cnonce)
  return 'Digest %s' % (base)
  \<close>
  \<^verbatim>\<open>entdig\<close> is \<^verbatim>\<open>None\<close> throughout.
\<close>

definition str_truthy :: "string option \<Rightarrow> bool" where
  "str_truthy x = (case x of None \<Rightarrow> False | Some s \<Rightarrow> s \<noteq> [])"

definition qop_fields :: "string \<Rightarrow> string \<Rightarrow> string" where
  "qop_fields ncvalue cnonce =
     '', qop='' @ quoted ''auth'' @ '', nc='' @ ncvalue @ '', cnonce='' @ quoted cnonce"

definition digest_header_text ::
  "string \<Rightarrow> string option \<Rightarrow> string \<Rightarrow> string \<Rightarrow> string \<Rightarrow> string option \<Rightarrow> string option \<Rightarrow>
   string option \<Rightarrow> string \<Rightarrow> string \<Rightarrow> string" where
  "digest_header_text user realm nonce uri respdig opaque algorithm qop ncvalue cnonce =
     (let base = ''username='' @ quoted user @ '', realm='' @ quoted (pct_s realm)
                 @ '', nonce='' @ quoted nonce @ '', uri='' @ quoted uri
                 @ '', response='' @ quoted respdig;
          base = (if str_truthy opaque then base @ '', opaque='' @ quoted (pct_s opaque) else base);
          base = (if str_truthy algorithm then base @ '', algorithm='' @ quoted (pct_s algorithm)
                  else base);
          base = (if str_truthy qop then base @ qop_fields ncvalue cnonce else base)
      in ''Digest '' @ base)"

text \<open>
  \<^verbatim>\<open>build_digest_header(self, method, url)\<close>: the result (a raise, \<^verbatim>\<open>None\<close>, or the
  header) and the state after the call.  \<^verbatim>\<open>algorithm_u\<close> is the source's \<^verbatim>\<open>_algorithm\<close>.
  The steps in between, in the source's order:
  \<^verbatim>\<open>
  KD = lambda s, d: hash_utf8("%s:%s" % (s, d))
  if hash_utf8 is None:
      return None
  entdig = None
  p_parsed = urlparse(url)
  path = p_parsed.path or "/"
  if p_parsed.query:
      path += "?" + p_parsed.query
  A1 = '%s:%s:%s' % (self.username, realm, self.password)
  A2 = '%s:%s' % (method, path)
  HA1 = hash_utf8(A1)
  HA2 = hash_utf8(A2)
  if nonce == self._thread_local.last_nonce:
      self._thread_local.nonce_count += 1
  else:
      self._thread_local.nonce_count = 1
  ncvalue = '%08x' % self._thread_local.nonce_count
  s = str(self._thread_local.nonce_count).encode('utf-8')
  s += nonce.encode('utf-8')
  s += time.ctime().encode('utf-8')
  s += os.urandom(8)
  cnonce = (hashlib.sha1(s).hexdigest()[:16])
  if _algorithm == 'MD5-SESS':
      HA1 = hash_utf8('%s:%s:%s' % (HA1, nonce, cnonce))
  ...
  self._thread_local.last_nonce = nonce
  \<close>
  Reading the unbound \<^verbatim>\<open>hash_utf8\<close> in the guard raises \<^verbatim>\<open>UnboundLocalError\<close>;
  \<^verbatim>\<open>nonce.encode\<close> raises \<^verbatim>\<open>AttributeError\<close> when the challenge has no nonce.
\<close>

definition build_digest_header ::
  "auth_env \<Rightarrow> digest_auth \<Rightarrow> string \<Rightarrow> string \<Rightarrow> (error + string option) \<times> digest_auth" where
  "build_digest_header env self meth url_arg =
     (let realm = chal self ''realm'';
          nonce = chal self ''nonce'';
          qop = chal self ''qop'';
          algorithm = chal self ''algorithm'';
          opaque = chal self ''opaque'';
          algorithm_u = algorithm_u_of algorithm
      in case select_hash env algorithm_u of
           None \<Rightarrow> (Inl (UnboundLocalError ''hash_utf8''), self)
         | Some hash_utf8 \<Rightarrow>
             (let p_parsed = env_urlparse env url_arg;
                  uri = (if path p_parsed \<noteq> [] then path p_parsed else ''/'');
                  uri = (if query p_parsed \<noteq> [] then uri @ ''?'' @ query p_parsed else uri);
                  A1 = username self @ '':'' @ pct_s realm @ '':'' @ password self;
                  A2 = meth @ '':'' @ uri;
                  HA1 = hash_utf8 A1;
                  HA2 = hash_utf8 A2;
                  self = self\<lparr>nonce_count :=
                           (if nonce = Some (last_nonce self) then nonce_count self + 1 else 1)\<rparr>;
                  ncvalue = fmt_08x (nonce_count self)
              in case nonce of
                   None \<Rightarrow> (Inl (AttributeError ''encode''), self)
                 | Some nonce \<Rightarrow>
                     (let s = encode_utf8 (str_nat (nonce_count self)) @ encode_utf8 nonce
                              @ encode_utf8 (env_ctime env) @ env_urandom env;
                          cnonce = take 16 (env_sha1 env s);
                          HA1 = (if algorithm_u = ''MD5-SESS''
                                 then hash_utf8 (HA1 @ '':'' @ nonce @ '':'' @ cnonce) else HA1)
                      in case response_digest hash_utf8 qop HA1 HA2 nonce ncvalue cnonce of
                           None \<Rightarrow> (Inr None, self)
                         | Some respdig \<Rightarrow>
                             (Inr (Some (digest_header_text (username self) realm nonce uri respdig
                                           opaque algorithm qop ncvalue cnonce)),
                              self\<lparr>last_nonce := nonce\<rparr>))))"




text \<open>
  \<^verbatim>\<open>
  def handle_401(self, r, **kwargs):
      if not 400 <= r.status_code < 500:
          self._thread_local.num_401_calls = 1
          return r
      if self._thread_local.pos is not None:
          r.request.body.seek(self._thread_local.pos)
      s_auth = r.headers.get('www-authenticate', '')
      if 'digest' in s_auth.lower() and self._thread_local.num_401_calls < 2:
          self._thread_local.num_401_calls += 1
          pat = re.compile(r'digest ', flags=re.IGNORECASE)
          self._thread_local.chal = parse_dict_header(pat.sub('', s_auth, count=1))
          r.content
          r.close()
          prep = r.request.copy()
          extract_cookies_to_jar(prep._cookies, r.request, r.raw)
          prep.prepare_cookies(prep._cookies)
          prep.headers['Authorization'] = self.build_digest_header(
              prep.method, prep.url)
          _r = r.connection.send(prep, **kwargs)
          _r.history.append(r)
          _r.request = prep
          return _r
      self._thread_local.num_401_calls = 1
      return r
  \<close>
  The result is the raise or the response returned, the state after the call, and the
  requests that were handed to \<^verbatim>\<open>r.connection.send\<close>.  \<^verbatim>\<open>r.content\<close> and \<^verbatim>\<open>r.close()\<close>
  drain and release the raw stream, which the response record does not hold.  A
  \<^verbatim>\<open>send\<close> that returns \<^verbatim>\<open>None\<close> makes \<^verbatim>\<open>_r.history\<close> raise \<^verbatim>\<open>AttributeError\<close>.
\<close>




section \<open>Example inputs\<close>

text \<open>
  Concrete collaborators for evaluating the functions above: a \<^verbatim>\<open>urlparse\<close> that is right
  on URLs of the form \<^verbatim>\<open>scheme://example.com/\<close>, the usual port table, and an
  environment whose digests are fixed hex strings (no property below depends on a digest's
  value) and whose adapter answers every request with a 200 response.
\<close>

definition urlparse_example :: "string \<Rightarrow> parsed_url" where
  "urlparse_example u =
     \<lparr>scheme = takeWhile (\<lambda>c. c \<noteq> CHR '':'') u, hostname = Some ''example.com'',
      port = Inr None, path = ''/'', query = []\<rparr>"


definition request_example :: prepared_request where
  "request_example =
     \<lparr>req_method = ''GET'', req_url = ''https://example.com/'', req_headers = Map.empty,
      req_body = NoBody\<rparr>"

definition env_example :: auth_env where
  "env_example =
     \<lparr>env_md5 = (\<lambda>b. ''0123456789abcdef0123456789abcdef''),
      env_sha1 = (\<lambda>b. ''fedcba9876543210fedcba9876543210fedcba98''),
      env_ctime = ''Wed Nov  4 12:00:00 2026'',
      env_urandom = ''01234567'',
      env_urlparse = urlparse_example,
      env_parse_dict_header =
        (\<lambda>s. [''realm'' \<mapsto> ''r'', ''nonce'' \<mapsto> ''abc'', ''qop'' \<mapsto> ''auth'']),
      env_cookies = (\<lambda>r prep. prep),
      env_send = (\<lambda>prep. Inr (Some (Response 200 Map.empty (req_url prep) [] prep)))\<rparr>"

section \<open>Properties of the dictionary operations\<close>

lemma map_of_setitem: "map_of (setitem k v d) = (map_of d)(k \<mapsto> v)"
  by (induction d) auto

lemma keys_setitem:
  "map fst (setitem k v d) = (if k \<in> set (map fst d) then map fst d else map fst d @ [k])"
  by (induction d) auto

lemma wf_setitem: "wf_dict d \<Longrightarrow> wf_dict (setitem k v d)"
  by (simp add: wf_dict_def keys_setitem)

lemma map_of_dict_update: "map_of (dict_update d es) = map_of d ++ map_of (rev es)"
proof (induction es arbitrary: d)
  case Nil
  show ?case by simp
next
  case (Cons e es)
  have "map_of (dict_update d (e # es)) = (map_of d)(fst e \<mapsto> snd e) ++ map_of (rev es)"
    by (simp only: dict_update.simps Cons.IH map_of_setitem)
  also have "\<dots> = map_of d ++ map_of (rev (e # es))"
    by (cases e) (simp add: map_add_assoc [symmetric] map_add_upd_left)
  finally show ?case .
qed

lemma wf_dict_update: "wf_dict d \<Longrightarrow> wf_dict (dict_update d es)"
  by (induction es arbitrary: d) (simp_all add: wf_setitem)

lemma map_of_rev_distinct: "distinct (map fst es) \<Longrightarrow> map_of (rev es) = map_of es"
proof (induction es)
  case Nil
  show ?case by simp
next
  case (Cons e es)
  obtain k v where e: "e = (k, v)" by (cases e)
  from Cons.prems e have k: "k \<notin> fst ` set es" and d: "distinct (map fst es)" by auto
  have "map_of es k = None" using k by (simp add: map_of_eq_None_iff)
  then have "map_of es ++ [k \<mapsto> v] = (map_of es)(k \<mapsto> v)" by simp
  moreover have "[k \<mapsto> v] ++ map_of es = (map_of es)(k \<mapsto> v)"
  proof
    fix x
    show "([k \<mapsto> v] ++ map_of es) x = ((map_of es)(k \<mapsto> v)) x"
      using \<open>map_of es k = None\<close> by (cases "x = k") (auto simp: map_add_def split: option.splits)
  qed
  ultimately show ?case using Cons.IH [OF d] e by simp
qed

lemma keys_dict_update:
  "distinct (map fst es) \<Longrightarrow>
   map fst (dict_update d es) = map fst d @ filter (\<lambda>k. k \<notin> set (map fst d)) (map fst es)"
proof (induction es arbitrary: d)
  case Nil
  show ?case by simp
next
  case (Cons e es)
  from Cons.prems have de: "distinct (map fst es)" and ne: "fst e \<notin> set (map fst es)" by auto
  have f: "filter (\<lambda>k. k \<noteq> fst e \<and> k \<notin> set (map fst d)) (map fst es)
           = filter (\<lambda>k. k \<notin> set (map fst d)) (map fst es)"
    using ne by (intro filter_cong) (auto intro: rev_image_eqI)
  show ?case
    using Cons.IH [OF de, of "setitem (fst e) (snd e) d"] f
    by (auto simp: keys_setitem conj_commute)
qed

lemma merge_mappings:
  assumes "wf_dict rd" "wf_dict sd"
  shows "\<exists>merged. merge_setting (PDict rd) (PDict sd) = PDict merged \<and> wf_dict merged
     \<and> (\<forall>k. map_of merged k = (case map_of rd k of Some v \<Rightarrow> Some v | None \<Rightarrow> map_of sd k))
     \<and> map fst merged = map fst sd @ filter (\<lambda>k. k \<notin> set (map fst sd)) (map fst rd)"
proof -
  let ?base = "OrderedDict (to_key_val_list sd)"
  let ?m = "dict_update ?base (to_key_val_list rd)"
  have base_map: "map_of ?base = map_of sd"
    using assms(2) by (simp add: OrderedDict_def to_key_val_list_def map_of_dict_update
        map_of_rev_distinct wf_dict_def)
  have base_keys: "map fst ?base = map fst sd"
    using assms(2) by (simp add: OrderedDict_def to_key_val_list_def keys_dict_update wf_dict_def)
  have wf_base: "wf_dict ?base"
    unfolding OrderedDict_def by (rule wf_dict_update) (simp add: wf_dict_def)
  have 1: "merge_setting (PDict rd) (PDict sd) = PDict ?m" by simp
  have 2: "wf_dict ?m" using wf_base by (rule wf_dict_update)
  have 3: "map_of ?m k = (case map_of rd k of Some v \<Rightarrow> Some v | None \<Rightarrow> map_of sd k)" for k
    using assms(1) base_map
    by (simp add: map_of_dict_update to_key_val_list_def map_of_rev_distinct wf_dict_def
        map_add_def)
  have 4: "map fst ?m = map fst sd @ filter (\<lambda>k. k \<notin> set (map fst sd)) (map fst rd)"
    using assms(1) base_keys
    by (simp add: keys_dict_update to_key_val_list_def wf_dict_def)
  from 1 2 3 4 show ?thesis by blast
qed

section \<open>ConfigMerger\<close>

text \<open>
  Claim C6.  \<^verbatim>\<open>merge_setting\<close> returns the other value when either setting is \<^verbatim>\<open>None\<close>.
  When both are mappings the result is a mapping built on the session setting: it holds
  every key once, a key present in the per-call setting has the per-call value, any other
  key has the session's value, and the keys are the session's in their order, followed by
  the per-call keys that are new.  In every other case the per-call value is returned.
\<close>

theorem merge_setting_spec:
  "merge_setting request_setting PNone = request_setting
   \<and> merge_setting PNone session_setting = session_setting
   \<and> (wf_dict rd \<longrightarrow> wf_dict sd \<longrightarrow>
        (\<exists>merged. merge_setting (PDict rd) (PDict sd) = PDict merged \<and> wf_dict merged
           \<and> (\<forall>k. map_of merged k = (case map_of rd k of Some v \<Rightarrow> Some v | None \<Rightarrow> map_of sd k))
           \<and> map fst merged = map fst sd @ filter (\<lambda>k. k \<notin> set (map fst sd)) (map fst rd)))
   \<and> (request_setting \<noteq> PNone \<longrightarrow> session_setting \<noteq> PNone \<longrightarrow>
        \<not> (is_mapping request_setting \<and> is_mapping session_setting) \<longrightarrow>
        merge_setting request_setting session_setting = request_setting)"
proof (intro conjI impI)
  show "merge_setting request_setting PNone = request_setting" by simp
  show "merge_setting PNone session_setting = session_setting" by (cases session_setting) simp_all
  show "\<exists>merged. merge_setting (PDict rd) (PDict sd) = PDict merged \<and> wf_dict merged
           \<and> (\<forall>k. map_of merged k = (case map_of rd k of Some v \<Rightarrow> Some v | None \<Rightarrow> map_of sd k))
           \<and> map fst merged = map fst sd @ filter (\<lambda>k. k \<notin> set (map fst sd)) (map fst rd)"
    if "wf_dict rd" "wf_dict sd" using that by (rule merge_mappings)
  show "merge_setting request_setting session_setting = request_setting"
    if "request_setting \<noteq> PNone" "session_setting \<noteq> PNone"
       "\<not> (is_mapping request_setting \<and> is_mapping session_setting)"
    using that by (cases request_setting; cases session_setting) simp_all
qed

theorem merge_setting_spec_witness:
  "wf_dict [(''a'', PInt 1)] \<and> wf_dict [(''a'', PInt 2), (''b'', PInt 3)]
   \<and> merge_setting (PDict [(''a'', PInt 1)]) (PDict [(''a'', PInt 2), (''b'', PInt 3)])
       = PDict [(''a'', PInt 1), (''b'', PInt 3)]
   \<and> PBool False \<noteq> PNone \<and> PBool True \<noteq> PNone
   \<and> \<not> (is_mapping (PBool False) \<and> is_mapping (PBool True))
   \<and> merge_setting (PBool False) (PBool True) = PBool False"
  using merge_setting_spec [of "PBool False" "PBool True" "[(''a'', PInt 1)]"
      "[(''a'', PInt 2), (''b'', PInt 3)]"]
  by (simp add: wf_dict_def OrderedDict_def to_key_val_list_def)



section \<open>RedirectResolver\<close>

text \<open>
  Claim C8.  \<^verbatim>\<open>get_redirect_target\<close> returns a URI exactly when the status is one of
  301, 302, 303, 307, 308 and the response has a non-empty \<^verbatim>\<open>Location\<close> header; the URI
  is then \<^verbatim>\<open>urljoin\<close> of the response's URL and that header.  Otherwise it returns
  \<^verbatim>\<open>None\<close>.
\<close>

theorem get_redirect_target_spec:
  "((get_redirect_target urljoin resp = Some target) =
     (status_code resp \<in> {301, 302, 303, 307, 308}
      \<and> (\<exists>location. headers resp ''location'' = Some location \<and> location \<noteq> []
            \<and> target = urljoin (url resp) location)))
   \<and> ((get_redirect_target urljoin resp = None) =
     (\<not> (status_code resp \<in> {301, 302, 303, 307, 308}
         \<and> (\<exists>location. headers resp ''location'' = Some location \<and> location \<noteq> []))))"
  by (auto simp: get_redirect_target_def is_redirect_def REDIRECT_STATI_def split: option.splits)

theorem get_redirect_target_spec_witness:
  "get_redirect_target (\<lambda>base ref. base @ ref)
     (Response 302 [''location'' \<mapsto> ''next''] ''http://example.com/'' [] request_example)
     = Some ''http://example.com/next''
   \<and> get_redirect_target (\<lambda>base ref. base @ ref)
     (Response 200 [''location'' \<mapsto> ''next''] ''http://example.com/'' [] request_example) = None"
  using get_redirect_target_spec [of "\<lambda>base ref. base @ ref"
      "Response 302 [''location'' \<mapsto> ''next''] ''http://example.com/'' [] request_example"
      "''http://example.com/next''"]
    get_redirect_target_spec [of "\<lambda>base ref. base @ ref"
      "Response 200 [''location'' \<mapsto> ''next''] ''http://example.com/'' [] request_example"]
  by simp

text \<open>
  What \<^verbatim>\<open>should_strip_auth\<close> computes: with equal host names it compares the two ports,
  and nothing else, unless the redirect goes from \<^verbatim>\<open>http\<close> to \<^verbatim>\<open>https\<close>.
\<close>

lemma should_strip_auth_same_port:
  assumes "hostname (urlparse old_url) = hostname (urlparse new_url)"
      and "port (urlparse old_url) = Inr p" and "port (urlparse new_url) = Inr p"
  shows "should_strip_auth urlparse old_url new_url = Inr False"
  using assms by (simp add: should_strip_auth_def Let_def)

text \<open>
  Claim C1.  The claim has a redirect from \<^verbatim>\<open>https\<close> to \<^verbatim>\<open>http\<close> on the same host and
  port strip \<^verbatim>\<open>Authorization\<close>.  The code compares the ports only: from
  \<^verbatim>\<open>https://example.com/\<close> to \<^verbatim>\<open>http://example.com/\<close> both ports are \<^verbatim>\<open>None\<close> and
  \<^verbatim>\<open>should_strip_auth\<close> returns \<^verbatim>\<open>False\<close>.
\<close>

theorem should_strip_auth_https_to_http:
  "should_strip_auth urlparse_example ''https://example.com/'' ''http://example.com/'' = Inr False"
  by (simp add: should_strip_auth_def urlparse_example_def Let_def)

text \<open>
  Claim C7.  The claim has a 303 response turn a \<^verbatim>\<open>POST\<close> into a \<^verbatim>\<open>GET\<close>.  The body of
  \<^verbatim>\<open>rebuild_method\<close> is \<^verbatim>\<open>pass\<close>: after the call the method is still \<^verbatim>\<open>POST\<close>.
\<close>

theorem rebuild_method_303_post:
  "req_method (rebuild_method
     \<lparr>req_method = ''POST'', req_url = ''http://example.com/form'', req_headers = Map.empty,
      req_body = BytesBody ''a=1''\<rparr>
     (Response 303 [''location'' \<mapsto> ''/done''] ''http://example.com/form'' []
        \<lparr>req_method = ''POST'', req_url = ''http://example.com/form'', req_headers = Map.empty,
         req_body = BytesBody ''a=1''\<rparr>)) = ''POST''"
  by (simp add: rebuild_method_def)

section \<open>ConnectionPoolAdapter\<close>

text \<open>
  \<^verbatim>\<open>BaseAdapter.send\<close> turns a \<^verbatim>\<open>ProtocolError\<close> or a socket error of the transport
  into \<^verbatim>\<open>ConnectionError\<close> and builds a response from a raw response.
\<close>

lemma BaseAdapter_send_wraps:
  "urlopen req = Inl (ProtocolError m) \<Longrightarrow>
     BaseAdapter_send urlopen req = Inl (ConnectionError (ProtocolError m))"
  "urlopen req = Inl (SocketError m) \<Longrightarrow>
     BaseAdapter_send urlopen req = Inl (ConnectionError (SocketError m))"
  "urlopen req = Inr raw \<Longrightarrow>
     \<exists>resp. BaseAdapter_send urlopen req = Inr (Some resp) \<and> status_code resp = status raw
        \<and> request resp = req"
  by (simp_all add: BaseAdapter_send_def)

text \<open>
  Claim C9.  The claim has the adapter's \<^verbatim>\<open>send\<close> raise \<^verbatim>\<open>ConnectionError\<close> on a
  transport fault and return a response on success.  \<^verbatim>\<open>HTTPAdapter.send\<close> overrides
  \<^verbatim>\<open>BaseAdapter.send\<close> with \<^verbatim>\<open>pass\<close>: it returns \<^verbatim>\<open>None\<close> whether the transport would
  fail or answer.
\<close>

theorem HTTPAdapter_send_returns_None:
  "HTTPAdapter_send (\<lambda>req. Inl (ProtocolError ''Connection aborted.'')) request_example = Inr None
   \<and> HTTPAdapter_send (\<lambda>req. Inr \<lparr>status = 200, raw_headers = Map.empty, reason = ''OK''\<rparr>)
        request_example = Inr None"
  by (simp add: HTTPAdapter_send_def)



section \<open>DigestAuthEngine\<close>


text \<open>
  Claim C10.  When the challenge has an \<^verbatim>\<open>algorithm\<close> whose upper-case form is none of
  \<^verbatim>\<open>MD5\<close>, \<^verbatim>\<open>MD5-SESS\<close>, \<^verbatim>\<open>SHA\<close>, the local \<^verbatim>\<open>hash_utf8\<close> is never assigned and
  \<^verbatim>\<open>build_digest_header\<close> raises \<^verbatim>\<open>UnboundLocalError\<close> at the guard
  \<^verbatim>\<open>if hash_utf8 is None\<close>; it does not return \<^verbatim>\<open>None\<close>, and the state is as before.
\<close>

theorem build_digest_header_unbound_hash:
  assumes "chal self ''algorithm'' = Some a"
      and "upper a \<notin> {''MD5'', ''MD5-SESS'', ''SHA''}"
  shows "build_digest_header env self meth url_arg = (Inl (UnboundLocalError ''hash_utf8''), self)"
  using assms by (simp add: build_digest_header_def Let_def algorithm_u_of_def select_hash_def)

lemma upper_SHA_256: "upper ''SHA-256'' = ''SHA-256''"
  by code_simp

theorem build_digest_header_unbound_hash_witness:
  "chal ((HTTPDigestAuth ''user'' ''pass'')
           \<lparr>chal := [''nonce'' \<mapsto> ''abc'', ''algorithm'' \<mapsto> ''SHA-256'']\<rparr>) ''algorithm''
     = Some ''SHA-256''
   \<and> upper ''SHA-256'' \<notin> {''MD5'', ''MD5-SESS'', ''SHA''}
   \<and> build_digest_header env_example
        ((HTTPDigestAuth ''user'' ''pass'')
           \<lparr>chal := [''nonce'' \<mapsto> ''abc'', ''algorithm'' \<mapsto> ''SHA-256'']\<rparr>)
        ''GET'' ''http://example.com/''
      = (Inl (UnboundLocalError ''hash_utf8''),
         (HTTPDigestAuth ''user'' ''pass'')
           \<lparr>chal := [''nonce'' \<mapsto> ''abc'', ''algorithm'' \<mapsto> ''SHA-256'']\<rparr>)"
  using build_digest_header_unbound_hash [of
      "(HTTPDigestAuth ''user'' ''pass'')
         \<lparr>chal := [''nonce'' \<mapsto> ''abc'', ''algorithm'' \<mapsto> ''SHA-256'']\<rparr>"
      "''SHA-256''" env_example "''GET''" "''http://example.com/''"]
  by (simp add: upper_SHA_256)

























end
